theory Spec2Isabelle
  imports Main
begin

section \<open>The SMPP time codec of cpp-smpp\<close>

text \<open>
  The development embeds the time codec of \<^verbatim>\<open>smpp/timeformat.cc\<close> (the chrono-based
  functions \<^verbatim>\<open>ParseSmppTimestamp\<close>, \<^verbatim>\<open>ParseDlrTimestamp\<close>, \<^verbatim>\<open>ToSmppTimeString\<close>) and the
  duration formatter of the older \<^verbatim>\<open>src/timeformat.h\<close> (\<^verbatim>\<open>getTimeString\<close>).

  Conventions of the embedding:
  \<^item> values of the C++ types \<^verbatim>\<open>int\<close>, \<^verbatim>\<open>long\<close> and \<^verbatim>\<open>long long\<close> are HOL integers; every
    operation that the code performs in \<^verbatim>\<open>int\<close> or \<^verbatim>\<open>long\<close> is written with the two's
    complement wrap-around of that width (\<^verbatim>\<open>int\<close> is 32 bits, \<^verbatim>\<open>long\<close> is 64 bits, as on
    the LP64 targets whose \<^verbatim>\<open>strptime\<close> and \<^verbatim>\<open>tm_gmtoff\<close> the code uses);
  \<^item> \<^verbatim>\<open>/\<close> and \<^verbatim>\<open>%\<close> round towards zero, as do the \<^verbatim>\<open>duration_cast\<close>s;
  \<^item> a thrown \<^verbatim>\<open>SmppException\<close> is the left injection of a sum, and so is a write
    beyond the end of an array (undefined behaviour; a fortified build aborts there);
  \<^item> the wall clock, the clock's resolution and the process's time zone are read from
    an explicit record of ambient values.
\<close>

subsection \<open>Machine arithmetic\<close>

definition int32 :: "int \<Rightarrow> int" where
  "int32 x = (x + 2 ^ 31) mod 2 ^ 32 - 2 ^ 31"

definition int64 :: "int \<Rightarrow> int" where
  "int64 x = (x + 2 ^ 63) mod 2 ^ 64 - 2 ^ 63"

definition add32 :: "int \<Rightarrow> int \<Rightarrow> int" where
  "add32 a b = int32 (a + b)"

definition mul32 :: "int \<Rightarrow> int \<Rightarrow> int" where
  "mul32 a b = int32 (a * b)"

definition add64 :: "int \<Rightarrow> int \<Rightarrow> int" where
  "add64 a b = int64 (a + b)"

definition mul64 :: "int \<Rightarrow> int \<Rightarrow> int" where
  "mul64 a b = int64 (a * b)"

definition cdiv :: "int \<Rightarrow> int \<Rightarrow> int" where
  "cdiv a b = sgn a * sgn b * (\<bar>a\<bar> div \<bar>b\<bar>)"

definition cmod :: "int \<Rightarrow> int \<Rightarrow> int" where
  "cmod a b = a - b * cdiv a b"

subsection \<open>Errors\<close>

datatype error = SmppException string | BufferOverrun

subsection \<open>Characters and decimal numbers\<close>

definition is_digit :: "char \<Rightarrow> bool" where
  "is_digit c = ((48::nat) \<le> of_char c \<and> of_char c \<le> (57::nat))"

definition digit_val :: "char \<Rightarrow> int" where
  "digit_val c = int (of_char c) - 48"

text \<open>
  \<^verbatim>\<open>std::stoi\<close> in base ten. The code applies it to capture groups of the pattern only,
  which are one or two decimal digits, so the white space, sign and failure cases of
  \<^verbatim>\<open>stoi\<close> do not arise and are not part of the model.
\<close>

definition stoi :: "string \<Rightarrow> int" where
  "stoi s = foldl (\<lambda>acc c. acc * 10 + digit_val c) 0 s"

definition digit_char :: "nat \<Rightarrow> char" where
  "digit_char n = ''0123456789'' ! (n mod 10)"

fun dec :: "nat \<Rightarrow> string" where
  "dec n = (if n < 10 then [digit_char n] else dec (n div 10) @ [digit_char n])"

declare dec.simps [simp del]

text \<open>
  \<^verbatim>\<open>printf\<close>'s conversions \<^verbatim>\<open>%02i\<close>, \<^verbatim>\<open>%02li\<close> and \<^verbatim>\<open>%02lli\<close>: at least two characters,
  padded with zeros after the sign.
\<close>

definition fmt02 :: "int \<Rightarrow> string" where
  "fmt02 n =
     (if n < 0 then CHR ''-'' # dec (nat (- n))
      else replicate (2 - length (dec (nat n))) CHR ''0'' @ dec (nat n))"

text \<open>
  Insertion of an \<^verbatim>\<open>int\<close> into a stream after \<^verbatim>\<open>setfill('0')\<close> and \<^verbatim>\<open>setw(2)\<close>: the
  number's text, sign included, filled on the left up to two characters.
\<close>

definition to_text :: "int \<Rightarrow> string" where
  "to_text n = (if n < 0 then CHR ''-'' # dec (nat (- n)) else dec (nat n))"

definition setw2 :: "int \<Rightarrow> string" where
  "setw2 n = replicate (2 - length (to_text n)) CHR ''0'' @ to_text n"

subsection \<open>The pattern of the wire format\<close>

text \<open>
  The regular expression
  \<^verbatim>\<open>^(\d{2})(\d{2})(\d{2})(\d{2})(\d{2})(\d{2})(\d{1})(\d{2})([R+-])$\<close>
  is a sequence of capture groups, each a run of digits of fixed length or one
  character of a class. \<^verbatim>\<open>regex_match\<close> succeeds when the groups consume the whole input.
  A match result holds the whole match at index 0 and the groups at 1 to 9.
\<close>

datatype group = Digits nat | OneOf string

type_synonym smatch = "string list"

definition pattern :: "group list" where
  "pattern = [Digits 2, Digits 2, Digits 2, Digits 2, Digits 2, Digits 2,
              Digits 1, Digits 2, OneOf ''R+-'']"

fun match_groups :: "group list \<Rightarrow> string \<Rightarrow> string list option" where
  "match_groups [] s = (if s = [] then Some [] else None)"
| "match_groups (Digits n # gs) s =
     (if n \<le> length s \<and> list_all is_digit (take n s)
      then map_option ((#) (take n s)) (match_groups gs (drop n s))
      else None)"
| "match_groups (OneOf cs # gs) s =
     (case s of
        [] \<Rightarrow> None
      | c # r \<Rightarrow> if c \<in> set cs then map_option ((#) [c]) (match_groups gs r) else None)"

definition regex_match :: "string \<Rightarrow> group list \<Rightarrow> smatch option" where
  "regex_match s p = map_option ((#) s) (match_groups p s)"

subsection \<open>The C library: broken-down time\<close>

text \<open>
  \<^verbatim>\<open>struct tm\<close>, with the members that the code assigns or that \<^verbatim>\<open>mktime\<close> reads.
\<close>

record tm =
  tm_sec :: int
  tm_min :: int
  tm_hour :: int
  tm_mday :: int
  tm_mon :: int
  tm_year :: int
  tm_isdst :: int
  tm_gmtoff :: int

text \<open>
  What a call reads from its surroundings: the offset of the process's time zone in
  seconds east of UTC (a zone without daylight saving), the value of
  \<^verbatim>\<open>system_clock::now()\<close> in ticks of the clock, and the number of ticks in a second.
\<close>

record ambient =
  zone_offset :: int
  clock_now :: int
  ticks_per_second :: int

text \<open>Days between 1970-01-01 and a date of the proleptic Gregorian calendar.\<close>

definition days_from_civil :: "int \<Rightarrow> int \<Rightarrow> int \<Rightarrow> int" where
  "days_from_civil y m d =
     (let y' = (if m \<le> 2 then y - 1 else y);
          era = y' div 400;
          yoe = y' - era * 400;
          mp = (if m > 2 then m - 3 else m + 9);
          doy = (153 * mp + 2) div 5 + d - 1;
          doe = yoe * 365 + yoe div 4 - yoe div 100 + doy
      in era * 146097 + doe - 719468)"

text \<open>
  \<^verbatim>\<open>mktime\<close> of the C library, in a zone of fixed offset. It reads the six calendar
  members as local time, carries members that are out of range into the next unit, and
  reads neither \<^verbatim>\<open>tm_gmtoff\<close> nor (in such a zone) \<^verbatim>\<open>tm_isdst\<close>. \<^verbatim>\<open>time_t\<close> is not bounded
  in the model.
\<close>

definition mktime :: "ambient \<Rightarrow> tm \<Rightarrow> int" where
  "mktime env t =
     (let y = 1900 + tm_year t + tm_mon t div 12;
          m = tm_mon t mod 12 + 1;
          days = days_from_civil y m 1 + (tm_mday t - 1)
      in days * 86400 + tm_hour t * 3600 + tm_min t * 60 + tm_sec t - zone_offset env)"

definition from_time_t :: "ambient \<Rightarrow> int \<Rightarrow> int" where
  "from_time_t env t = t * ticks_per_second env"

text \<open>
  \<^verbatim>\<open>strptime\<close> of the GNU C library with the format \<^verbatim>\<open>%y%m%d%H%M\<close>. Each conversion
  reads a number with the library's \<^verbatim>\<open>get_number (from, to, 2)\<close>: it skips white space,
  fails when the next character is not a digit, then takes digits while fewer than two
  are taken, ten times the value so far does not pass \<^verbatim>\<open>to\<close> and a digit follows, and
  fails when the value is outside \<^verbatim>\<open>from\<close> to \<^verbatim>\<open>to\<close>. \<^verbatim>\<open>%y\<close> maps 69 to 99 to the years
  1969 to 1999 and 0 to 68 to 2000 to 2068. Conversion stops at the first failure and
  leaves the remaining members as they were; input after the last conversion is not
  looked at. The code discards the pointer that \<^verbatim>\<open>strptime\<close> returns, so the model
  returns the structure only.
\<close>

definition is_space :: "char \<Rightarrow> bool" where
  "is_space c = (c = CHR '' '' \<or> ((9::nat) \<le> of_char c \<and> of_char c \<le> (13::nat)))"

fun read_digits :: "nat \<Rightarrow> int \<Rightarrow> int \<Rightarrow> string \<Rightarrow> int \<times> string" where
  "read_digits n hi val [] = (val, [])"
| "read_digits n hi val (c # r) =
     (let val' = val * 10 + digit_val c
      in if 0 < n - 1 \<and> val' * 10 \<le> hi \<and> (case r of [] \<Rightarrow> False | c' # _ \<Rightarrow> is_digit c')
         then read_digits (n - 1) hi val' r
         else (val', r))"

definition get_number :: "int \<Rightarrow> int \<Rightarrow> nat \<Rightarrow> string \<Rightarrow> (int \<times> string) option" where
  "get_number lo hi n s =
     (let rp = dropWhile is_space s
      in case rp of
           [] \<Rightarrow> None
         | c # _ \<Rightarrow>
             if \<not> is_digit c then None
             else
               (let (val, rest) = read_digits n hi 0 rp
                in if val < lo \<or> val > hi then None else Some (val, rest)))"

definition strptime_dlr :: "string \<Rightarrow> tm \<Rightarrow> tm" where
  "strptime_dlr s t0 =
     (case get_number 0 99 2 s of
        None \<Rightarrow> t0
      | Some (y, s1) \<Rightarrow>
          (let t1 = t0\<lparr>tm_year := (if y < 69 then y + 100 else y)\<rparr> in
           case get_number 1 12 2 s1 of
             None \<Rightarrow> t1
           | Some (mo, s2) \<Rightarrow>
               (let t2 = t1\<lparr>tm_mon := mo - 1\<rparr> in
                case get_number 1 31 2 s2 of
                  None \<Rightarrow> t2
                | Some (d, s3) \<Rightarrow>
                    (let t3 = t2\<lparr>tm_mday := d\<rparr> in
                     case get_number 0 23 2 s3 of
                       None \<Rightarrow> t3
                     | Some (h, s4) \<Rightarrow>
                         (let t4 = t3\<lparr>tm_hour := h\<rparr> in
                          case get_number 0 59 2 s4 of
                            None \<Rightarrow> t4
                          | Some (mi, s5) \<Rightarrow> t4\<lparr>tm_min := mi\<rparr>)))))"

definition c_str :: "string \<Rightarrow> string" where
  "c_str s = takeWhile (\<lambda>c. c \<noteq> CHR 0x00) s"

text \<open>
  \<^verbatim>\<open>sub_match::compare\<close>: zero exactly when the texts are equal, otherwise the sign of
  the lexicographic order.
\<close>

fun lex_less :: "string \<Rightarrow> string \<Rightarrow> bool" where
  "lex_less [] [] = False"
| "lex_less [] (y # ys) = True"
| "lex_less (x # xs) [] = False"
| "lex_less (x # xs) (y # ys) =
     ((of_char x :: nat) < of_char y \<or> (x = y \<and> lex_less xs ys))"

definition compare :: "string \<Rightarrow> string \<Rightarrow> int" where
  "compare a b = (if a = b then 0 else if lex_less a b then - 1 else 1)"

subsection \<open>Parsing: the functions of \<^verbatim>\<open>smpp/timeformat.cc\<close>\<close>

text \<open>
  \<^verbatim>\<open>ParseDlrTimestamp\<close>. The structure is not initialised apart from \<^verbatim>\<open>tm_isdst\<close> and
  \<^verbatim>\<open>tm_sec\<close>; its other members start with whatever the stack holds, the parameter
  \<open>junk\<close>. The function has no failing path: the result is always a time point.
\<close>

definition ParseDlrTimestamp :: "ambient \<Rightarrow> tm \<Rightarrow> string \<Rightarrow> error + int" where
  "ParseDlrTimestamp env junk time =
     (let tm0 = junk\<lparr>tm_isdst := - 1, tm_sec := 0\<rparr>;
          tm1 = strptime_dlr (c_str time) tm0
      in Inr (from_time_t env (mktime env tm1)))"

definition ParseRelativeTimestamp :: "smatch \<Rightarrow> int" where
  "ParseRelativeTimestamp match =
     (let yy = stoi (match ! 1);
          mon = stoi (match ! 2);
          dd = stoi (match ! 3);
          hh = stoi (match ! 4);
          min = stoi (match ! 5);
          sec = stoi (match ! 6);
          total_hours =
            add32 (add32 (add32 (mul32 (mul32 yy 365) 24) (mul32 (mul32 mon 30) 24))
                         (mul32 dd 24)) hh;
          total_minutes = add32 (mul32 total_hours 60) min;
          total_seconds = add64 (mul64 total_minutes 60) sec
      in total_seconds)"

text \<open>
  \<^verbatim>\<open>ParseAbsoluteTimestamp\<close> fills a \<^verbatim>\<open>struct tm\<close> (\<open>absolute_tm\<close>, lines 56 to 76 of
  the function) and hands it to \<^verbatim>\<open>mktime\<close>.
\<close>

definition absolute_tm :: "smatch \<Rightarrow> tm" where
  "absolute_tm match =
     (let yy = stoi (match ! 1);
          mon = stoi (match ! 2);
          dd = stoi (match ! 3);
          hh = stoi (match ! 4);
          min = stoi (match ! 5);
          sec = stoi (match ! 6);
          n = stoi (match ! 8);
          offset_hours = drop_bit 2 n;
          offset_minutes = mul32 (cmod n 4) 15;
          offset_sign = (if compare (match ! 9) ''+'' \<noteq> 0 then 1 else - 1)
      in \<lparr>tm_sec = sec, tm_min = min, tm_hour = hh, tm_mday = dd,
          tm_mon = add32 mon (- 1), tm_year = add32 (add32 2000 yy) (- 1900),
          tm_isdst = - 1,
          tm_gmtoff =
            mul32 offset_sign
              (add32 (mul32 (mul32 offset_hours 60) 60) (mul32 offset_minutes 60))\<rparr>)"

definition ParseAbsoluteTimestamp :: "ambient \<Rightarrow> smatch \<Rightarrow> int" where
  "ParseAbsoluteTimestamp env match = from_time_t env (mktime env (absolute_tm match))"

text \<open>
  \<^verbatim>\<open>ParseSmppTimestamp\<close> returns the pair of a time point (in ticks) and a duration (in
  seconds), or throws. Arithmetic on time points is not bounded in the model.
\<close>

definition wrong_format :: "string \<Rightarrow> error" where
  "wrong_format time =
     SmppException (''Timestamp '' @ CHR 0x22 # time @ CHR 0x22 # '' has the wrong format.'')"

definition ParseSmppTimestamp :: "ambient \<Rightarrow> string \<Rightarrow> error + int \<times> int" where
  "ParseSmppTimestamp env time =
     (case regex_match time pattern of
        Some match \<Rightarrow>
          if match ! (length match - 1) = ''R'' then
            (let td = ParseRelativeTimestamp match;
                 tp = clock_now env + td * ticks_per_second env
             in Inr (tp, td))
          else
            (let tp = ParseAbsoluteTimestamp env match;
                 now = clock_now env;
                 td = cdiv (tp - now) (ticks_per_second env)
             in Inr (tp, td))
      | None \<Rightarrow> Inl (wrong_format time))"

subsection \<open>Formatting\<close>

text \<open>\<^verbatim>\<open>ToSmppTimeString\<close> of a time point.\<close>

definition ToSmppTimeString_time_point :: "int \<Rightarrow> string" where
  "ToSmppTimeString_time_point tp = ''hello''"

text \<open>
  \<^verbatim>\<open>ToSmppTimeString\<close> of a duration \<open>d\<close> in seconds (a 64-bit count). The hour, minute
  and second counts are 64-bit; \<^verbatim>\<open>yy\<close>, \<^verbatim>\<open>mon\<close> and \<^verbatim>\<open>dd\<close> are \<^verbatim>\<open>int\<close>, so the quotients are
  narrowed to 32 bits and the products \<^verbatim>\<open>yy * 24 * 365\<close>, \<^verbatim>\<open>mon * 24 * 30\<close>, \<^verbatim>\<open>dd * 24\<close> are
  computed in 32 bits. \<^verbatim>\<open>sprintf\<close> writes the text and a terminating NUL into
  \<^verbatim>\<open>char buf[16]\<close> (\<open>sprintf_buf\<close>): when they need more than the array holds, the write
  runs beyond its end.
\<close>

definition sprintf_buf :: "nat \<Rightarrow> string \<Rightarrow> error + string" where
  "sprintf_buf n text = (if length text + 1 \<le> n then Inr text else Inl BufferOverrun)"

definition ToSmppTimeString_seconds :: "int \<Rightarrow> error + string" where
  "ToSmppTimeString_seconds d =
     (let h = cdiv d 3600;
          tmp = d - h * 3600;
          m = cdiv tmp 60;
          tmp' = tmp - m * 60;
          s = tmp';
          yy = int32 (cdiv (cdiv h 24) 365);
          h1 = h - mul32 (mul32 yy 24) 365;
          mon = int32 (cdiv (cdiv h1 24) 30);
          h2 = h1 - mul32 (mul32 mon 24) 30;
          dd = int32 (cdiv h2 24);
          h3 = h2 - mul32 dd 24
      in if yy > 99 then Inl (SmppException ''Time duration overflows'')
         else sprintf_buf 16
                (fmt02 yy @ fmt02 mon @ fmt02 dd @ fmt02 h3 @ fmt02 m @ fmt02 s @ ''000R''))"

subsection \<open>Formatting: the duration formatter of \<^verbatim>\<open>src/timeformat.h\<close>\<close>

text \<open>
  A \<^verbatim>\<open>boost::posix_time::time_duration\<close> of whole seconds is its count of seconds;
  \<^verbatim>\<open>hours()\<close> is the total number of hours, \<^verbatim>\<open>minutes()\<close> and \<^verbatim>\<open>seconds()\<close> are the
  normalised remainders.
\<close>

definition td_hours :: "int \<Rightarrow> int" where
  "td_hours td = cdiv td 3600"

definition td_minutes :: "int \<Rightarrow> int" where
  "td_minutes td = cmod (cdiv td 60) 60"

definition td_seconds :: "int \<Rightarrow> int" where
  "td_seconds td = cmod td 60"

definition getTimeString_duration :: "int \<Rightarrow> string" where
  "getTimeString_duration td =
     (let totalHours = int32 (td_hours td);
          yy = cdiv (cdiv totalHours 24) 365;
          totalHours1 = add32 totalHours (- mul32 (mul32 yy 24) 365);
          mon = cdiv (cdiv totalHours1 24) 30;
          totalHours2 = add32 totalHours1 (- mul32 (mul32 mon 24) 30);
          dd = cdiv totalHours2 24;
          totalHours3 = add32 totalHours2 (- mul32 dd 24)
      in setw2 yy @ setw2 mon @ setw2 dd @ setw2 totalHours3
         @ setw2 (td_minutes td) @ setw2 (td_seconds td) @ ''000R'')"

subsection \<open>Reference notions for the statements\<close>

text \<open>
  The wire grammar in words: sixteen characters, fifteen decimal digits and then one of
  \<^verbatim>\<open>R\<close>, \<^verbatim>\<open>+\<close>, \<^verbatim>\<open>-\<close>. \<open>field s i\<close> is the two-digit number at position \<open>i\<close> of a string,
  \<open>captures s\<close> the match result of a string that obeys the grammar.
\<close>

definition wire_grammar :: "string \<Rightarrow> bool" where
  "wire_grammar s =
     (length s = 16 \<and> list_all is_digit (take 15 s)
      \<and> (s ! 15 = CHR ''R'' \<or> s ! 15 = CHR ''+'' \<or> s ! 15 = CHR ''-''))"

definition captures :: "string \<Rightarrow> smatch" where
  "captures s =
     [s, take 2 s, take 2 (drop 2 s), take 2 (drop 4 s), take 2 (drop 6 s),
      take 2 (drop 8 s), take 2 (drop 10 s), take 1 (drop 12 s), take 2 (drop 13 s),
      drop 15 s]"

definition field :: "string \<Rightarrow> nat \<Rightarrow> int" where
  "field s i = digit_val (s ! i) * 10 + digit_val (s ! Suc i)"

text \<open>
  The instant that an absolute wire string denotes, in seconds since 1970-01-01 00:00 UTC,
  in the words of the specification: the offset is \<open>nn div 4\<close> hours and
  \<open>(nn mod 4) * 15\<close> minutes, negative for the tag \<^verbatim>\<open>-\<close> and positive otherwise, and
  the instant is the wall-clock value of the calendar fields (year 2000 + YY) minus the
  offset.
\<close>

definition spec_signed_offset :: "string \<Rightarrow> int" where
  "spec_signed_offset s =
     (let offset_hours = field s 13 div 4;
          offset_minutes = (field s 13 mod 4) * 15
      in (if s ! 15 = CHR ''-'' then - 1 else 1) * (offset_hours * 3600 + offset_minutes * 60))"

definition spec_absolute_instant :: "string \<Rightarrow> int" where
  "spec_absolute_instant s =
     days_from_civil (2000 + field s 0) (field s 2) (field s 4) * 86400
       + field s 6 * 3600 + field s 8 * 60 + field s 10
       - spec_signed_offset s"

text \<open>A number from 0 to 99 written with exactly two decimal digits.\<close>

definition two_digits :: "int \<Rightarrow> string" where
  "two_digits n = [digit_char (nat (n div 10)), digit_char (nat (n mod 10))]"

text \<open>
  The decomposition of a duration of \<open>d\<close> seconds in the words of the specification:
  seconds and minutes modulo 60, then the hours into years of 365 days, months of 30
  days of the remainder, days of the remainder, and the remaining hours.
\<close>

definition duration_fields :: "int \<Rightarrow> int list" where
  "duration_fields d =
     (let h = d div 3600;
          yy = h div 24 div 365;
          r1 = h - yy * (365 * 24);
          mon = r1 div 24 div 30;
          r2 = r1 - mon * (30 * 24);
          dd = r2 div 24;
          hh = r2 - dd * 24;
          mm = d div 60 mod 60;
          ss = d mod 60
      in [yy, mon, dd, hh, mm, ss])"

fun width :: "group \<Rightarrow> nat" where
  "width (Digits n) = n"
| "width (OneOf cs) = 1"

section \<open>Properties\<close>

subsection \<open>Arithmetic within range\<close>

lemma int32_id: "- (2 ^ 31) \<le> x \<Longrightarrow> x < 2 ^ 31 \<Longrightarrow> int32 x = x"
  by (simp add: int32_def)

lemma int64_id: "- (2 ^ 63) \<le> x \<Longrightarrow> x < 2 ^ 63 \<Longrightarrow> int64 x = x"
  by (simp add: int64_def)

lemma digit_val_range: "is_digit c \<Longrightarrow> 0 \<le> digit_val c \<and> digit_val c \<le> 9"
  by (auto simp: is_digit_def digit_val_def)

lemma stoi_two: "stoi [a, b] = digit_val a * 10 + digit_val b"
  by (simp add: stoi_def)

lemma stoi_one: "stoi [a] = digit_val a"
  by (simp add: stoi_def)

subsection \<open>The pattern accepts the wire grammar\<close>

lemma length16:
  assumes "length s = 16"
  obtains c0 c1 c2 c3 c4 c5 c6 c7 c8 c9 c10 c11 c12 c13 c14 c15
  where "s = [c0, c1, c2, c3, c4, c5, c6, c7, c8, c9, c10, c11, c12, c13, c14, c15]"
  using assms by (auto simp: length_Suc_conv eval_nat_numeral)

lemma match_groups_length:
  "match_groups gs s = Some m \<Longrightarrow> length s = sum_list (map width gs)"
  by (induction gs s arbitrary: m rule: match_groups.induct)
     (auto split: if_splits list.splits)

lemma regex_match_short: "length s \<noteq> 16 \<Longrightarrow> regex_match s pattern = None"
proof (rule ccontr)
  assume len: "length s \<noteq> 16" and "regex_match s pattern \<noteq> None"
  then obtain m where "match_groups pattern s = Some m"
    by (auto simp: regex_match_def)
  from match_groups_length [OF this] have "length s = 16"
    by (simp add: pattern_def)
  with len show False by simp
qed

lemma regex_match_16:
  "regex_match [c0, c1, c2, c3, c4, c5, c6, c7, c8, c9, c10, c11, c12, c13, c14, c15] pattern =
   (if wire_grammar [c0, c1, c2, c3, c4, c5, c6, c7, c8, c9, c10, c11, c12, c13, c14, c15]
    then Some (captures [c0, c1, c2, c3, c4, c5, c6, c7, c8, c9, c10, c11, c12, c13, c14, c15])
    else None)"
  by (simp add: regex_match_def pattern_def wire_grammar_def captures_def)

lemma regex_match_pattern:
  "regex_match s pattern = (if wire_grammar s then Some (captures s) else None)"
proof (cases "length s = 16")
  case True
  then show ?thesis by (elim length16) (simp only: regex_match_16)
next
  case False
  then show ?thesis by (simp add: regex_match_short wire_grammar_def)
qed

lemma field_range:
  "is_digit (s ! i) \<Longrightarrow> is_digit (s ! Suc i) \<Longrightarrow> 0 \<le> field s i \<and> field s i \<le> 99"
  using digit_val_range [of "s ! i"] digit_val_range [of "s ! Suc i"]
  by (simp add: field_def)

lemma wire_grammar_fields:
  assumes "wire_grammar s"
  shows "0 \<le> field s 0 \<and> field s 0 \<le> 99" "0 \<le> field s 2 \<and> field s 2 \<le> 99"
    "0 \<le> field s 4 \<and> field s 4 \<le> 99" "0 \<le> field s 6 \<and> field s 6 \<le> 99"
    "0 \<le> field s 8 \<and> field s 8 \<le> 99" "0 \<le> field s 10 \<and> field s 10 \<le> 99"
    "0 \<le> field s 13 \<and> field s 13 \<le> 99"
proof -
  from assms have len: "length s = 16" by (simp add: wire_grammar_def)
  from assms have "list_all is_digit (take 15 s)" by (simp add: wire_grammar_def)
  then have d: "\<And>i. i < 15 \<Longrightarrow> is_digit (s ! i)"
    using len by (auto simp: list_all_length)
  show "0 \<le> field s 0 \<and> field s 0 \<le> 99" by (rule field_range) (simp_all add: d)
  show "0 \<le> field s 2 \<and> field s 2 \<le> 99" by (rule field_range) (simp_all add: d)
  show "0 \<le> field s 4 \<and> field s 4 \<le> 99" by (rule field_range) (simp_all add: d)
  show "0 \<le> field s 6 \<and> field s 6 \<le> 99" by (rule field_range) (simp_all add: d)
  show "0 \<le> field s 8 \<and> field s 8 \<le> 99" by (rule field_range) (simp_all add: d)
  show "0 \<le> field s 10 \<and> field s 10 \<le> 99" by (rule field_range) (simp_all add: d)
  show "0 \<le> field s 13 \<and> field s 13 \<le> 99" by (rule field_range) (simp_all add: d)
qed

lemma captures_fields:
  assumes "length s = 16"
  shows "stoi (captures s ! 1) = field s 0" "stoi (captures s ! 2) = field s 2"
    "stoi (captures s ! 3) = field s 4" "stoi (captures s ! 4) = field s 6"
    "stoi (captures s ! 5) = field s 8" "stoi (captures s ! 6) = field s 10"
    "stoi (captures s ! 8) = field s 13" "captures s ! 9 = [s ! 15]"
    "length (captures s) = 10"
  using assms by (elim length16; simp add: captures_def field_def stoi_two)+

lemma relative_arith:
  assumes "0 \<le> yy \<and> yy \<le> 99" "0 \<le> mon \<and> mon \<le> 99" "0 \<le> dd \<and> dd \<le> 99"
    "0 \<le> hh \<and> hh \<le> 99" "0 \<le> mi \<and> mi \<le> 99" "0 \<le> ss \<and> ss \<le> 99"
  shows "add64 (mul64 (add32 (mul32 (add32 (add32 (add32 (mul32 (mul32 yy 365) 24)
            (mul32 (mul32 mon 30) 24)) (mul32 dd 24)) hh) 60) mi) 60) ss
         = ((yy * 365 * 24 + mon * 30 * 24 + dd * 24 + hh) * 60 + mi) * 60 + ss"
  using assms by (simp add: add32_def mul32_def add64_def mul64_def int32_id int64_id)

lemma ParseRelativeTimestamp_captures:
  assumes "wire_grammar s"
  shows "ParseRelativeTimestamp (captures s) =
         ((field s 0 * 365 * 24 + field s 2 * 30 * 24 + field s 4 * 24 + field s 6) * 60
           + field s 8) * 60 + field s 10"
proof -
  from assms have len: "length s = 16" by (simp add: wire_grammar_def)
  show ?thesis
    unfolding ParseRelativeTimestamp_def Let_def captures_fields [OF len]
    by (rule relative_arith) (rule wire_grammar_fields [OF assms])+
qed

lemma ParseSmppTimestamp_relative:
  assumes "wire_grammar s" "s ! 15 = CHR ''R''"
  shows "ParseSmppTimestamp env s =
         Inr (clock_now env + ParseRelativeTimestamp (captures s) * ticks_per_second env,
              ParseRelativeTimestamp (captures s))"
proof -
  from assms have len: "length s = 16" by (simp add: wire_grammar_def)
  show ?thesis
    using assms
    by (simp add: ParseSmppTimestamp_def regex_match_pattern captures_fields [OF len] Let_def)
qed

lemma ParseSmppTimestamp_absolute:
  assumes "wire_grammar s" "s ! 15 \<noteq> CHR ''R''"
  shows "ParseSmppTimestamp env s =
         Inr (ParseAbsoluteTimestamp env (captures s),
              cdiv (ParseAbsoluteTimestamp env (captures s) - clock_now env)
                   (ticks_per_second env))"
proof -
  from assms have len: "length s = 16" by (simp add: wire_grammar_def)
  show ?thesis
    using assms
    by (simp add: ParseSmppTimestamp_def regex_match_pattern captures_fields [OF len] Let_def)
qed

lemma ParseSmppTimestamp_reject:
  "\<not> wire_grammar s \<Longrightarrow> ParseSmppTimestamp env s = Inl (wrong_format s)"
  by (simp add: ParseSmppTimestamp_def regex_match_pattern)

lemma wire_grammar_examples:
  "wire_grammar ''991210233429000R''" "wire_grammar ''000002000000000R''"
  "\<not> wire_grammar ''11101910301110+''" "\<not> wire_grammar ''000002000000000r''"
  "\<not> wire_grammar ''0000020000AA000R''" "\<not> wire_grammar ''''"
  by (simp_all add: wire_grammar_def is_digit_def)

text \<open>
  Claim C2. For every valid relative wire string with fields YY MM DD hh mm ss and tag
  \<^verbatim>\<open>R\<close>, \<^verbatim>\<open>ParseSmppTimestamp\<close> returns a duration of exactly
  ((YY*365*24 + MM*30*24 + DD*24 + hh)*60 + mm)*60 + ss seconds (and the time point that
  lies this duration after the current time); parsing \<^verbatim>\<open>991210233429000R\<close> yields 876143
  hours, 34 minutes and 29 seconds, and parsing \<^verbatim>\<open>000002000000000R\<close> yields 48 hours.
\<close>

theorem ParseSmppTimestamp_relative_duration:
  "(\<forall>env s. wire_grammar s \<and> s ! 15 = CHR ''R'' \<longrightarrow>
      (let D = ((field s 0 * 365 * 24 + field s 2 * 30 * 24 + field s 4 * 24 + field s 6) * 60
                 + field s 8) * 60 + field s 10
       in ParseSmppTimestamp env s = Inr (clock_now env + D * ticks_per_second env, D)))
   \<and> (\<forall>env. map_sum id snd (ParseSmppTimestamp env ''991210233429000R'') =
         Inr (876143 * 3600 + 34 * 60 + 29))
   \<and> (\<forall>env. map_sum id snd (ParseSmppTimestamp env ''000002000000000R'') = Inr (48 * 3600))"
proof -
  have gen: "ParseSmppTimestamp env s =
      Inr (clock_now env +
           (((field s 0 * 365 * 24 + field s 2 * 30 * 24 + field s 4 * 24 + field s 6) * 60
              + field s 8) * 60 + field s 10) * ticks_per_second env,
           ((field s 0 * 365 * 24 + field s 2 * 30 * 24 + field s 4 * 24 + field s 6) * 60
              + field s 8) * 60 + field s 10)"
    if "wire_grammar s" "s ! 15 = CHR ''R''" for env s
    using that by (simp add: ParseSmppTimestamp_relative ParseRelativeTimestamp_captures)
  have e1: "map_sum id snd (ParseSmppTimestamp env ''991210233429000R'') =
         Inr (876143 * 3600 + 34 * 60 + 29)" for env
    using gen [of "''991210233429000R''" env]
    by (simp add: wire_grammar_examples field_def digit_val_def)
  have e2: "map_sum id snd (ParseSmppTimestamp env ''000002000000000R'') = Inr (48 * 3600)"
    for env
    using gen [of "''000002000000000R''" env]
    by (simp add: wire_grammar_examples field_def digit_val_def)
  from gen e1 e2 show ?thesis unfolding Let_def by blast
qed

theorem ParseSmppTimestamp_relative_duration_witness:
  "wire_grammar ''000002000000000R'' \<and> ''000002000000000R'' ! 15 = CHR ''R''
   \<and> ParseSmppTimestamp \<lparr>zone_offset = 0, clock_now = 1000, ticks_per_second = 1\<rparr>
        ''000002000000000R'' = Inr (173800, 172800)"
proof -
  let ?env = "\<lparr>zone_offset = 0, clock_now = 1000, ticks_per_second = 1\<rparr>"
  let ?s = "''000002000000000R''"
  have g: "wire_grammar ?s \<and> ?s ! 15 = CHR ''R''"
    by (simp add: wire_grammar_def is_digit_def)
  from ParseSmppTimestamp_relative_duration have
    "wire_grammar ?s \<and> ?s ! 15 = CHR ''R'' \<longrightarrow>
      (let D = ((field ?s 0 * 365 * 24 + field ?s 2 * 30 * 24 + field ?s 4 * 24 + field ?s 6) * 60
                 + field ?s 8) * 60 + field ?s 10
       in ParseSmppTimestamp ?env ?s = Inr (clock_now ?env + D * ticks_per_second ?env, D))"
    by blast
  with g show ?thesis
    by (simp add: field_def digit_val_def Let_def)
qed

text \<open>
  Claim C5. \<^verbatim>\<open>ParseSmppTimestamp\<close> succeeds only on strings of the anchored grammar
  (fifteen digits and a tag among \<^verbatim>\<open>R\<close>, \<^verbatim>\<open>+\<close>, \<^verbatim>\<open>-\<close>, nothing else) and throws on every
  other input an exception whose message quotes the input; \<^verbatim>\<open>11101910301110+\<close> (wrong
  length), \<^verbatim>\<open>000002000000000r\<close> (lowercase tag), \<^verbatim>\<open>0000020000AA000R\<close> (a field that is not
  digits) and the empty string are all rejected in this way.
\<close>

theorem ParseSmppTimestamp_grammar:
  "(\<forall>env s.
      ((\<exists>r. ParseSmppTimestamp env s = Inr r) \<longleftrightarrow> wire_grammar s)
      \<and> (\<not> wire_grammar s \<longrightarrow>
           ParseSmppTimestamp env s =
             Inl (SmppException
                    (''Timestamp '' @ CHR 0x22 # s @ CHR 0x22 # '' has the wrong format.''))))
   \<and> (\<forall>env. \<forall>s \<in> {''11101910301110+'', ''000002000000000r'', ''0000020000AA000R'', ''''}.
         ParseSmppTimestamp env s =
           Inl (SmppException
                  (''Timestamp '' @ CHR 0x22 # s @ CHR 0x22 # '' has the wrong format.'')))"
proof -
  have ok: "\<exists>r. ParseSmppTimestamp env s = Inr r" if "wire_grammar s" for env s
    using that
    by (cases "s ! 15 = CHR ''R''")
       (simp_all add: ParseSmppTimestamp_relative ParseSmppTimestamp_absolute)
  have bad: "ParseSmppTimestamp env s =
      Inl (SmppException (''Timestamp '' @ CHR 0x22 # s @ CHR 0x22 # '' has the wrong format.''))"
    if "\<not> wire_grammar s" for env s
    using that by (simp add: ParseSmppTimestamp_reject wrong_format_def)
  have iff: "(\<exists>r. ParseSmppTimestamp env s = Inr r) \<longleftrightarrow> wire_grammar s" for env s
  proof
    assume "\<exists>r. ParseSmppTimestamp env s = Inr r"
    then show "wire_grammar s" using bad [of s env] by (cases "wire_grammar s") auto
  next
    assume "wire_grammar s"
    then show "\<exists>r. ParseSmppTimestamp env s = Inr r" by (rule ok)
  qed
  have ex: "\<not> wire_grammar s"
    if "s \<in> {''11101910301110+'', ''000002000000000r'', ''0000020000AA000R'', ''''}" for s
    using that wire_grammar_examples by auto
  from iff bad ex show ?thesis by blast
qed

theorem ParseSmppTimestamp_grammar_witness:
  "\<not> wire_grammar ''000002000000000r''
   \<and> ParseSmppTimestamp \<lparr>zone_offset = 0, clock_now = 0, ticks_per_second = 1\<rparr>
        ''000002000000000r'' =
      Inl (SmppException
             (''Timestamp '' @ CHR 0x22 # ''000002000000000r'' @ CHR 0x22 #
              '' has the wrong format.''))
   \<and> wire_grammar ''111019103011100+''
   \<and> (\<exists>r. ParseSmppTimestamp \<lparr>zone_offset = 0, clock_now = 0, ticks_per_second = 1\<rparr>
        ''111019103011100+'' = Inr r)"
proof -
  have a: "\<not> wire_grammar ''000002000000000r''" and b: "wire_grammar ''111019103011100+''"
    by (simp_all add: wire_grammar_def is_digit_def)
  from a b ParseSmppTimestamp_grammar show ?thesis by blast
qed

lemma field_take:
  assumes "take n s = take n s'" "Suc i < n"
  shows "field s i = field s' i"
proof -
  have "s ! i = take n s ! i" "s ! Suc i = take n s ! Suc i"
    "s' ! i = take n s' ! i" "s' ! Suc i = take n s' ! Suc i"
    using assms(2) by simp_all
  with assms(1) show ?thesis by (simp add: field_def)
qed

text \<open>
  Claim C10. Two valid relative wire strings that agree on the six digit pairs
  YY MM DD hh mm ss, and differ at most in the tenths digit and the offset field, parse
  to the same duration: the two fields are checked by the pattern and then not used.
\<close>

theorem ParseSmppTimestamp_relative_ignores_tenths_and_offset:
  "wire_grammar s \<and> s ! 15 = CHR ''R'' \<and> wire_grammar s' \<and> s' ! 15 = CHR ''R''
   \<and> take 12 s = take 12 s' \<longrightarrow>
   (\<exists>d. map_sum id snd (ParseSmppTimestamp env s) = Inr d
        \<and> map_sum id snd (ParseSmppTimestamp env' s') = Inr d)"
proof
  assume a: "wire_grammar s \<and> s ! 15 = CHR ''R'' \<and> wire_grammar s' \<and> s' ! 15 = CHR ''R''
   \<and> take 12 s = take 12 s'"
  then have t: "take 12 s = take 12 s'" by simp
  have "field s 0 = field s' 0" "field s 2 = field s' 2" "field s 4 = field s' 4"
    "field s 6 = field s' 6" "field s 8 = field s' 8" "field s 10 = field s' 10"
    by (rule field_take [OF t], simp)+
  then have "ParseRelativeTimestamp (captures s) = ParseRelativeTimestamp (captures s')"
    using a by (simp add: ParseRelativeTimestamp_captures)
  with a show "\<exists>d. map_sum id snd (ParseSmppTimestamp env s) = Inr d
        \<and> map_sum id snd (ParseSmppTimestamp env' s') = Inr d"
    by (simp add: ParseSmppTimestamp_relative)
qed

theorem ParseSmppTimestamp_relative_ignores_tenths_and_offset_witness:
  "wire_grammar ''000002000000000R'' \<and> ''000002000000000R'' ! 15 = CHR ''R''
   \<and> wire_grammar ''000002000000513R'' \<and> ''000002000000513R'' ! 15 = CHR ''R''
   \<and> take 12 ''000002000000000R'' = take 12 ''000002000000513R''
   \<and> (\<exists>d. map_sum id snd
             (ParseSmppTimestamp \<lparr>zone_offset = 0, clock_now = 0, ticks_per_second = 1\<rparr>
                ''000002000000000R'') = Inr d
         \<and> map_sum id snd
             (ParseSmppTimestamp \<lparr>zone_offset = 3600, clock_now = 5, ticks_per_second = 1000\<rparr>
                ''000002000000513R'') = Inr d)"
proof -
  have h: "wire_grammar ''000002000000000R'' \<and> ''000002000000000R'' ! 15 = CHR ''R''
   \<and> wire_grammar ''000002000000513R'' \<and> ''000002000000513R'' ! 15 = CHR ''R''
   \<and> take 12 ''000002000000000R'' = take 12 ''000002000000513R''"
    by (simp add: wire_grammar_def is_digit_def)
  from h ParseSmppTimestamp_relative_ignores_tenths_and_offset
    [of "''000002000000000R''" "''000002000000513R''"
        "\<lparr>zone_offset = 0, clock_now = 0, ticks_per_second = 1\<rparr>"
        "\<lparr>zone_offset = 3600, clock_now = 5, ticks_per_second = 1000\<rparr>"]
  show ?thesis by blast
qed

subsection \<open>Absolute timestamps\<close>

lemma compare_tag: "compare [c] ''+'' \<noteq> 0 \<longleftrightarrow> c \<noteq> CHR ''+''"
  by (simp add: compare_def)

lemma cmod_nonneg: "0 \<le> a \<Longrightarrow> 0 < b \<Longrightarrow> cmod a b = a mod b"
  by (simp add: cmod_def cdiv_def sgn_if minus_mult_div_eq_mod)

lemma cdiv_nonneg: "0 \<le> a \<Longrightarrow> 0 < b \<Longrightarrow> cdiv a b = a div b"
  by (simp add: cdiv_def sgn_if)

lemma gmtoff_arith:
  assumes "0 \<le> n \<and> n \<le> 99" "sg = 1 \<or> sg = - 1"
  shows "mul32 sg (add32 (mul32 (mul32 (drop_bit 2 n) 60) 60) (mul32 (mul32 (cmod n 4) 15) 60))
         = sg * ((n div 4) * 3600 + (n mod 4) * 15 * 60)"
proof -
  have m: "cmod n 4 = n mod 4" using assms(1) by (simp add: cmod_nonneg)
  have d: "drop_bit 2 n = n div 4" by (simp add: drop_bit_eq_div)
  have r: "0 \<le> n div 4 \<and> n div 4 \<le> 24" "0 \<le> n mod 4 \<and> n mod 4 \<le> 3"
    using assms(1) by auto
  from assms(2) r show ?thesis
    unfolding m d by (auto simp: add32_def mul32_def int32_id)
qed

lemma absolute_tm_captures:
  assumes "wire_grammar s"
  shows "absolute_tm (captures s) =
     \<lparr>tm_sec = field s 10, tm_min = field s 8, tm_hour = field s 6, tm_mday = field s 4,
      tm_mon = field s 2 - 1, tm_year = field s 0 + 100, tm_isdst = - 1,
      tm_gmtoff = (if s ! 15 = CHR ''+'' then - 1 else 1)
                  * ((field s 13 div 4) * 3600 + (field s 13 mod 4) * 15 * 60)\<rparr>"
proof -
  from assms have len: "length s = 16" by (simp add: wire_grammar_def)
  note f = wire_grammar_fields [OF assms]
  have mon: "add32 (field s 2) (- 1) = field s 2 - 1"
    using f(2) by (simp add: add32_def int32_id)
  have yr: "add32 (add32 2000 (field s 0)) (- 1900) = field s 0 + 100"
    using f(1) by (simp add: add32_def int32_id)
  have off: "mul32 sg
       (add32 (mul32 (mul32 (drop_bit 2 (field s 13)) 60) 60)
              (mul32 (mul32 (cmod (field s 13) 4) 15) 60))
     = sg * ((field s 13 div 4) * 3600 + (field s 13 mod 4) * 15 * 60)"
    if "sg = 1 \<or> sg = - 1" for sg
    using f(7) that by (rule gmtoff_arith)
  show ?thesis
  proof (cases "s ! 15 = CHR ''+''")
    case True
    then show ?thesis
      unfolding absolute_tm_def Let_def captures_fields [OF len] compare_tag mon yr
      by (simp add: off)
  next
    case False
    then show ?thesis
      unfolding absolute_tm_def Let_def captures_fields [OF len] compare_tag mon yr
      by (simp add: off)
  qed
qed

lemma days_from_civil_day: "days_from_civil y m d = days_from_civil y m 1 + (d - 1)"
  by (simp add: days_from_civil_def Let_def)

lemma mktime_ignores_gmtoff: "mktime env (t\<lparr>tm_gmtoff := g\<rparr>) = mktime env t"
  by (simp add: mktime_def)

lemma ParseAbsoluteTimestamp_captures:
  assumes "wire_grammar s"
  shows "ParseAbsoluteTimestamp env (captures s) =
     ((days_from_civil (2000 + field s 0 + (field s 2 - 1) div 12) ((field s 2 - 1) mod 12 + 1) 1
        + (field s 4 - 1)) * 86400
      + field s 6 * 3600 + field s 8 * 60 + field s 10 - zone_offset env)
     * ticks_per_second env"
  by (simp add: ParseAbsoluteTimestamp_def absolute_tm_captures [OF assms] mktime_def
      from_time_t_def Let_def algebra_simps)

lemma ParseAbsoluteTimestamp_ignores_offset:
  assumes "wire_grammar s" "wire_grammar s'" "take 12 s = take 12 s'"
  shows "ParseAbsoluteTimestamp env (captures s) = ParseAbsoluteTimestamp env (captures s')"
proof -
  note t = assms(3)
  have "field s 0 = field s' 0" "field s 2 = field s' 2" "field s 4 = field s' 4"
    "field s 6 = field s' 6" "field s 8 = field s' 8" "field s 10 = field s' 10"
    by (rule field_take [OF t], simp)+
  then show ?thesis
    by (simp add: ParseAbsoluteTimestamp_captures assms)
qed

lemma wire_grammar_absolute_examples:
  "wire_grammar ''111019080000002+''" "wire_grammar ''111019080000004-''"
  "wire_grammar ''111019080000000+''" "wire_grammar ''111019090000004+''"
  by (simp_all add: wire_grammar_def is_digit_def)

text \<open>
  Claim C1. For a valid absolute wire string the offset is applied with sign +1 for the
  tag \<^verbatim>\<open>+\<close> and -1 for the tag \<^verbatim>\<open>-\<close>. The code computes the opposite sign: for
  \<^verbatim>\<open>111019080000002+\<close> (two quarter hours east) it stores -1800 in \<^verbatim>\<open>tm_gmtoff\<close>, and for
  \<^verbatim>\<open>111019080000004-\<close> (four quarter hours west) it stores +3600, where the offsets of
  the specification are +1800 and -3600.
\<close>

theorem absolute_tm_offset_sign_inverted:
  "map_option (\<lambda>match. tm_gmtoff (absolute_tm match))
      (regex_match ''111019080000002+'' pattern) = Some (- 1800)
   \<and> spec_signed_offset ''111019080000002+'' = 1800
   \<and> map_option (\<lambda>match. tm_gmtoff (absolute_tm match))
      (regex_match ''111019080000004-'' pattern) = Some 3600
   \<and> spec_signed_offset ''111019080000004-'' = - 3600"
  by (simp add: regex_match_pattern wire_grammar_absolute_examples absolute_tm_captures
      spec_signed_offset_def field_def digit_val_def)

text \<open>
  Claim C8. Two valid absolute wire strings that denote the same instant under different
  offsets resolve to the same time point. The code does not: \<^verbatim>\<open>111019080000000+\<close>
  (08:00 at UTC+0) and \<^verbatim>\<open>111019090000004+\<close> (09:00 at UTC+1) denote the same instant,
  and in every ambient zone the code resolves them to 08:00 and to 09:00 local time, one
  hour apart, because \<^verbatim>\<open>mktime\<close> does not read \<^verbatim>\<open>tm_gmtoff\<close>.
\<close>

theorem ParseSmppTimestamp_equivalent_offsets_differ:
  "spec_absolute_instant ''111019080000000+'' = spec_absolute_instant ''111019090000004+''
   \<and> map_sum id fst (ParseSmppTimestamp env ''111019080000000+'') =
       Inr ((1319011200 - zone_offset env) * ticks_per_second env)
   \<and> map_sum id fst (ParseSmppTimestamp env ''111019090000004+'') =
       Inr ((1319014800 - zone_offset env) * ticks_per_second env)"
  by (simp add: ParseSmppTimestamp_absolute ParseAbsoluteTimestamp_captures
      wire_grammar_absolute_examples spec_absolute_instant_def spec_signed_offset_def
      field_def digit_val_def days_from_civil_def)

text \<open>
  Claim C7. \<^verbatim>\<open>ToSmppTimeString\<close> of a time point returns a sixteen-character wire string
  in the layout YYMMDDhhmmsstnnp. The code returns the five characters \<^verbatim>\<open>hello\<close> for
  every time point.
\<close>

theorem ToSmppTimeString_time_point_placeholder:
  "ToSmppTimeString_time_point tp = ''hello''
   \<and> length (ToSmppTimeString_time_point tp) = 5
   \<and> \<not> wire_grammar (ToSmppTimeString_time_point tp)"
  by (simp add: ToSmppTimeString_time_point_def wire_grammar_def)

subsection \<open>Delivery receipts\<close>

lemma is_digit_not_nul: "is_digit c \<Longrightarrow> c \<noteq> CHR 0x00"
  by (auto simp: is_digit_def)

lemma is_digit_not_space: "is_digit c \<Longrightarrow> \<not> is_space c"
  by (auto simp: is_digit_def is_space_def)

lemma get_number_two:
  assumes "is_digit a" "is_digit b" "lo \<le> digit_val a * 10 + digit_val b"
    "digit_val a * 10 + digit_val b \<le> hi"
  shows "get_number lo hi 2 (a # b # r) = Some (digit_val a * 10 + digit_val b, r)"
proof -
  have "digit_val a * 10 \<le> hi"
    using digit_val_range [OF assms(2)] assms(4) by simp
  then have "read_digits 2 hi 0 (a # b # r) = (digit_val a * 10 + digit_val b, r)"
    using assms(2) by (simp add: Let_def)
  then show ?thesis
    using assms(1,3,4) by (simp add: get_number_def is_digit_not_space)
qed

lemma length_ge_10:
  assumes "10 \<le> length s"
  obtains c0 c1 c2 c3 c4 c5 c6 c7 c8 c9 r
  where "s = c0 # c1 # c2 # c3 # c4 # c5 # c6 # c7 # c8 # c9 # r"
  using assms by (auto simp: Suc_le_length_iff eval_nat_numeral)

lemma strptime_dlr_digits:
  assumes d: "is_digit c0" "is_digit c1" "is_digit c2" "is_digit c3" "is_digit c4"
      "is_digit c5" "is_digit c6" "is_digit c7" "is_digit c8" "is_digit c9"
    and mo: "1 \<le> digit_val c2 * 10 + digit_val c3" "digit_val c2 * 10 + digit_val c3 \<le> 12"
    and dd: "1 \<le> digit_val c4 * 10 + digit_val c5" "digit_val c4 * 10 + digit_val c5 \<le> 31"
    and hh: "digit_val c6 * 10 + digit_val c7 \<le> 23"
    and mi: "digit_val c8 * 10 + digit_val c9 \<le> 59"
  shows "strptime_dlr (c0 # c1 # c2 # c3 # c4 # c5 # c6 # c7 # c8 # c9 # r) t =
     t\<lparr>tm_year := (if digit_val c0 * 10 + digit_val c1 < 69
                    then digit_val c0 * 10 + digit_val c1 + 100
                    else digit_val c0 * 10 + digit_val c1),
       tm_mon := digit_val c2 * 10 + digit_val c3 - 1,
       tm_mday := digit_val c4 * 10 + digit_val c5,
       tm_hour := digit_val c6 * 10 + digit_val c7,
       tm_min := digit_val c8 * 10 + digit_val c9\<rparr>"
proof -
  have y: "0 \<le> digit_val c0 * 10 + digit_val c1" "digit_val c0 * 10 + digit_val c1 \<le> 99"
    and h0: "0 \<le> digit_val c6 * 10 + digit_val c7"
    and m0: "0 \<le> digit_val c8 * 10 + digit_val c9"
    using digit_val_range [OF d(1)] digit_val_range [OF d(2)] digit_val_range [OF d(7)]
      digit_val_range [OF d(8)] digit_val_range [OF d(9)] digit_val_range [OF d(10)]
    by simp_all
  show ?thesis
    unfolding strptime_dlr_def
    by (simp only: get_number_two [OF d(1) d(2) y] get_number_two [OF d(3) d(4) mo]
        get_number_two [OF d(5) d(6) dd] get_number_two [OF d(7) d(8) h0 hh]
        get_number_two [OF d(9) d(10) m0 mi] option.case prod.case Let_def)
qed

lemma c_str_digits:
  assumes "is_digit c0" "is_digit c1" "is_digit c2" "is_digit c3" "is_digit c4"
      "is_digit c5" "is_digit c6" "is_digit c7" "is_digit c8" "is_digit c9"
  shows "c_str (c0 # c1 # c2 # c3 # c4 # c5 # c6 # c7 # c8 # c9 # r) =
         c0 # c1 # c2 # c3 # c4 # c5 # c6 # c7 # c8 # c9 # c_str r"
  using assms by (simp add: c_str_def is_digit_not_nul)

lemma mktime_in_range:
  assumes "1 \<le> mo" "mo \<le> 12"
  shows "mktime env \<lparr>tm_sec = s, tm_min = mi, tm_hour = h, tm_mday = d, tm_mon = mo - 1,
                     tm_year = y - 1900, tm_isdst = i, tm_gmtoff = g\<rparr> =
         days_from_civil y mo d * 86400 + h * 3600 + mi * 60 + s - zone_offset env"
proof -
  from assms have "(mo - 1) div 12 = 0" "(mo - 1) mod 12 = mo - 1" by auto
  then show ?thesis
    by (simp add: mktime_def Let_def days_from_civil_day [of y mo d])
qed

lemma ParseDlrTimestamp_digits:
  assumes len: "10 \<le> length time" and dig: "list_all is_digit (take 10 time)"
    and mo: "1 \<le> field time 2" "field time 2 \<le> 12"
    and dd: "1 \<le> field time 4" "field time 4 \<le> 31"
    and hh: "field time 6 \<le> 23" and mi: "field time 8 \<le> 59"
  shows "ParseDlrTimestamp env junk time =
     Inr ((days_from_civil ((if field time 0 < 69 then 2000 else 1900) + field time 0)
             (field time 2) (field time 4) * 86400
           + field time 6 * 3600 + field time 8 * 60 + 0 - zone_offset env)
          * ticks_per_second env)"
proof -
  from len obtain c0 c1 c2 c3 c4 c5 c6 c7 c8 c9 r
    where s: "time = c0 # c1 # c2 # c3 # c4 # c5 # c6 # c7 # c8 # c9 # r"
    by (rule length_ge_10)
  from dig have d: "is_digit c0" "is_digit c1" "is_digit c2" "is_digit c3" "is_digit c4"
      "is_digit c5" "is_digit c6" "is_digit c7" "is_digit c8" "is_digit c9"
    by (simp_all add: s)
  have f: "field time 0 = digit_val c0 * 10 + digit_val c1"
    "field time 2 = digit_val c2 * 10 + digit_val c3"
    "field time 4 = digit_val c4 * 10 + digit_val c5"
    "field time 6 = digit_val c6 * 10 + digit_val c7"
    "field time 8 = digit_val c8 * 10 + digit_val c9"
    by (simp_all add: s field_def)
  obtain js jm jh jd jo jy ji jg where j: "junk =
    \<lparr>tm_sec = js, tm_min = jm, tm_hour = jh, tm_mday = jd, tm_mon = jo, tm_year = jy,
     tm_isdst = ji, tm_gmtoff = jg\<rparr>"
    by (cases junk) simp
  have sp: "strptime_dlr (c_str time) (junk\<lparr>tm_isdst := - 1, tm_sec := 0\<rparr>) =
    \<lparr>tm_sec = 0, tm_min = field time 8, tm_hour = field time 6, tm_mday = field time 4,
     tm_mon = field time 2 - 1,
     tm_year = ((if field time 0 < 69 then 2000 else 1900) + field time 0) - 1900,
     tm_isdst = - 1, tm_gmtoff = jg\<rparr>"
    unfolding s c_str_digits [OF d]
    using strptime_dlr_digits [OF d mo [unfolded f] dd [unfolded f] hh [unfolded f] mi [unfolded f]]
    by (simp add: f [unfolded s] j)
  show ?thesis
    unfolding ParseDlrTimestamp_def Let_def sp mktime_in_range [OF mo] from_time_t_def
    by simp
qed

lemmas eval_dlr = ParseDlrTimestamp_def strptime_dlr_def get_number_def c_str_def mktime_def
  from_time_t_def days_from_civil_def is_space_def is_digit_def digit_val_def Let_def

text \<open>
  Claim C6. \<^verbatim>\<open>ParseDlrTimestamp\<close> accepts exactly the strings of ten decimal digits
  YYMMDDhhmm, fails with an error on any other input, and on success yields the instant
  with year 2000+YY. The code has no failing path. In a process whose zone is UTC it
  accepts \<^verbatim>\<open>1402031337XYZ\<close> (thirteen characters, letters at the end) as 2014-02-03 13:37:00;
  for the empty string it hands the uninitialised members of the structure to \<^verbatim>\<open>mktime\<close>,
  so that the result is whatever the stack held (two different contents, two different
  time points); and it reads YY = 99 as 1999 (928589820 is 1999-06-05 13:37:00 UTC, and
  4084349820 is 2099-06-05 13:37:00 UTC).
\<close>

theorem ParseDlrTimestamp_never_fails:
  "length ''1402031337XYZ'' = 13 \<and> \<not> list_all is_digit ''1402031337XYZ''
   \<and> ParseDlrTimestamp \<lparr>zone_offset = 0, clock_now = 0, ticks_per_second = 1\<rparr>
        \<lparr>tm_sec = 0, tm_min = 0, tm_hour = 0, tm_mday = 0, tm_mon = 0, tm_year = 0,
         tm_isdst = 0, tm_gmtoff = 0\<rparr> ''1402031337XYZ'' = Inr 1391434620
   \<and> ParseDlrTimestamp \<lparr>zone_offset = 0, clock_now = 0, ticks_per_second = 1\<rparr>
        \<lparr>tm_sec = 0, tm_min = 0, tm_hour = 0, tm_mday = 0, tm_mon = 0, tm_year = 0,
         tm_isdst = 0, tm_gmtoff = 0\<rparr> [] = Inr (- 2209075200)
   \<and> ParseDlrTimestamp \<lparr>zone_offset = 0, clock_now = 0, ticks_per_second = 1\<rparr>
        \<lparr>tm_sec = 7, tm_min = 7, tm_hour = 7, tm_mday = 7, tm_mon = 7, tm_year = 7,
         tm_isdst = 7, tm_gmtoff = 7\<rparr> [] = Inr (- 1969289580)
   \<and> ParseDlrTimestamp \<lparr>zone_offset = 0, clock_now = 0, ticks_per_second = 1\<rparr>
        \<lparr>tm_sec = 0, tm_min = 0, tm_hour = 0, tm_mday = 0, tm_mon = 0, tm_year = 0,
         tm_isdst = 0, tm_gmtoff = 0\<rparr> ''9906051337'' = Inr 928589820
   \<and> days_from_civil 1999 6 5 * 86400 + 13 * 3600 + 37 * 60 = 928589820
   \<and> days_from_civil 2099 6 5 * 86400 + 13 * 3600 + 37 * 60 = 4084349820"
  by (simp add: eval_dlr)

subsection \<open>Two-digit fields\<close>

lemma digit_table:
  "m < 10 \<Longrightarrow> is_digit (''0123456789'' ! m) \<and> digit_val (''0123456789'' ! m) = int m"
proof -
  assume "m < 10"
  then have "m = 0 \<or> m = 1 \<or> m = 2 \<or> m = 3 \<or> m = 4 \<or> m = 5 \<or> m = 6 \<or> m = 7
             \<or> m = 8 \<or> m = 9"
    by arith
  then show ?thesis
    by (elim disjE) (simp_all add: is_digit_def digit_val_def)
qed

lemma digit_char_props: "is_digit (digit_char k) \<and> digit_val (digit_char k) = int (k mod 10)"
  unfolding digit_char_def by (rule digit_table) simp

lemma digit_char_mod: "digit_char (k mod 10) = digit_char k"
  by (simp add: digit_char_def)

lemma dec_small: "n < 10 \<Longrightarrow> dec n = [digit_char n]"
  by (simp add: dec.simps)

lemma dec_two: "10 \<le> n \<Longrightarrow> n < 100 \<Longrightarrow> dec n = [digit_char (n div 10), digit_char n]"
  by (subst dec.simps) (simp add: dec_small)

lemma dec_nonempty: "dec n \<noteq> []"
  by (subst dec.simps) simp

lemma two_digits_dec:
  assumes "0 \<le> n" "n \<le> 99"
  shows "replicate (2 - length (dec (nat n))) CHR ''0'' @ dec (nat n) = two_digits n"
proof (cases "n < 10")
  case True
  with assms have "dec (nat n) = [digit_char (nat n)]" "n div 10 = 0" "n mod 10 = n"
    by (simp_all add: dec_small)
  then show ?thesis by (simp add: two_digits_def digit_char_def)
next
  case False
  with assms have d: "dec (nat n) = [digit_char (nat n div 10), digit_char (nat n)]"
    by (simp add: dec_two)
  have "nat n div 10 = nat (n div 10)" "nat n mod 10 = nat (n mod 10)"
    using assms by (simp_all add: nat_div_distrib nat_mod_distrib)
  then have "digit_char (nat n div 10) = digit_char (nat (n div 10))"
    "digit_char (nat n) = digit_char (nat (n mod 10))"
    using digit_char_mod [of "nat n"] by simp_all
  with d show ?thesis by (simp add: two_digits_def)
qed

lemma fmt02_two_digits: "0 \<le> n \<Longrightarrow> n \<le> 99 \<Longrightarrow> fmt02 n = two_digits n"
  by (simp add: fmt02_def two_digits_dec)

lemma setw2_two_digits: "0 \<le> n \<Longrightarrow> n \<le> 99 \<Longrightarrow> setw2 n = two_digits n"
  by (simp add: setw2_def to_text_def two_digits_dec)

lemma two_digits_props:
  assumes "0 \<le> n" "n \<le> 99"
  shows "\<exists>a b. two_digits n = [a, b] \<and> is_digit a \<and> is_digit b
               \<and> digit_val a * 10 + digit_val b = n"
proof -
  have "int (nat (n div 10) mod 10) = n div 10" "int (nat (n mod 10) mod 10) = n mod 10"
    using assms by auto
  then show ?thesis
    using digit_char_props [of "nat (n div 10)"] digit_char_props [of "nat (n mod 10)"]
    by (simp add: two_digits_def)
qed

subsection \<open>Formatting a duration\<close>

lemma div_lo_hi:
  fixes a c :: int
  assumes "0 < c"
  shows "c * (a div c) \<le> a \<and> a < c * (a div c) + c"
proof -
  have "a = c * (a div c) + a mod c" by simp
  moreover have "0 \<le> a mod c" "a mod c < c" using assms by simp_all
  ultimately show ?thesis by linarith
qed

lemma div_unique_int:
  fixes x c q :: int
  assumes "c * q \<le> x" "x < c * q + c" "0 < c"
  shows "x div c = q"
  by (rule int_div_pos_eq [of x c q "x - c * q"]) (use assms in simp_all)

lemma duration_fields_range:
  fixes d :: int
  assumes "0 \<le> d" "d div 3600 div 24 div 365 \<le> 99"
  shows "0 \<le> d div 3600" "d div 3600 < 876000"
    and "0 \<le> d div 3600 div 24" "0 \<le> d div 3600 div 24 div 365"
    and "0 \<le> d div 3600 - d div 3600 div 24 div 365 * 8760"
    and "d div 3600 - d div 3600 div 24 div 365 * 8760 < 8760"
proof -
  note a = div_lo_hi [where c = 3600 and a = "d", OF zero_less_numeral] div_lo_hi [where c = 24 and a = "d div 3600", OF zero_less_numeral]
    div_lo_hi [where c = 365 and a = "d div 3600 div 24", OF zero_less_numeral]
  show "0 \<le> d div 3600" using a assms by linarith
  show "d div 3600 < 876000" using a assms by linarith
  show "0 \<le> d div 3600 div 24" using a assms by linarith
  show "0 \<le> d div 3600 div 24 div 365" using a assms by linarith
  show "0 \<le> d div 3600 - d div 3600 div 24 div 365 * 8760" using a assms by linarith
  show "d div 3600 - d div 3600 div 24 div 365 * 8760 < 8760" using a assms by linarith
qed

lemma remainder_fields_range:
  fixes r :: int
  assumes "0 \<le> r" "r < 8760"
  shows "0 \<le> r div 24" "0 \<le> r div 24 div 30" "r div 24 div 30 \<le> 12"
    and "0 \<le> r - r div 24 div 30 * 720" "r - r div 24 div 30 * 720 < 720"
proof -
  note a = div_lo_hi [where c = 24 and a = "r", OF zero_less_numeral] div_lo_hi [where c = 30 and a = "r div 24", OF zero_less_numeral]
  show "0 \<le> r div 24" using a assms by linarith
  show "0 \<le> r div 24 div 30" using a assms by linarith
  show "r div 24 div 30 \<le> 12" using a assms by linarith
  show "0 \<le> r - r div 24 div 30 * 720" using a assms by linarith
  show "r - r div 24 div 30 * 720 < 720" using a assms by linarith
qed

lemma day_fields_range:
  fixes r :: int
  assumes "0 \<le> r" "r < 720"
  shows "0 \<le> r div 24" "r div 24 \<le> 29" "0 \<le> r - r div 24 * 24" "r - r div 24 * 24 < 24"
proof -
  note a = div_lo_hi [where c = 24 and a = "r", OF zero_less_numeral]
  show "0 \<le> r div 24" using a assms by linarith
  show "r div 24 \<le> 29" using a assms by linarith
  show "0 \<le> r - r div 24 * 24" using a assms by linarith
  show "r - r div 24 * 24 < 24" using a assms by linarith
qed

lemma minute_arith:
  fixes d a h :: int
  assumes "60 * a \<le> d \<and> d < 60 * a + 60" "60 * h \<le> a \<and> a < 60 * h + 60"
  shows "60 * (a - 60 * h) \<le> d - h * 3600" "d - h * 3600 < 60 * (a - 60 * h) + 60"
    and "0 \<le> d - h * 3600" "d - h * 3600 - (a - 60 * h) * 60 = d - 60 * a"
  using assms by auto

lemma minute_fields:
  fixes d :: int
  shows "0 \<le> d - d div 3600 * 3600"
    and "(d - d div 3600 * 3600) div 60 = d div 60 mod 60"
    and "d - d div 3600 * 3600 - d div 60 mod 60 * 60 = d mod 60"
    and "0 \<le> d div 60 mod 60" "d div 60 mod 60 \<le> 59" "0 \<le> d mod 60" "d mod 60 \<le> 59"
proof -
  have h: "d div 3600 = d div 60 div 60"
    using zdiv_zmult2_eq [of 60 d 60] by simp
  have m: "d div 60 mod 60 = d div 60 - 60 * (d div 60 div 60)"
    by (simp add: minus_mult_div_eq_mod [symmetric])
  have s: "d mod 60 = d - 60 * (d div 60)"
    by (simp add: minus_mult_div_eq_mod [symmetric])
  note a = minute_arith [OF div_lo_hi [where c = 60 and a = d, OF zero_less_numeral]
      div_lo_hi [where c = 60 and a = "d div 60", OF zero_less_numeral]]
  show "0 \<le> d - d div 3600 * 3600" unfolding h by (rule a(3))
  have "(d - d div 60 div 60 * 3600) div 60 = d div 60 - 60 * (d div 60 div 60)"
    using a(1) a(2) by (intro div_unique_int) simp_all
  then show "(d - d div 3600 * 3600) div 60 = d div 60 mod 60" unfolding h m .
  show "d - d div 3600 * 3600 - d div 60 mod 60 * 60 = d mod 60"
    unfolding h m s by (rule a(4))
  show "0 \<le> d div 60 mod 60" "d div 60 mod 60 \<le> 59" "0 \<le> d mod 60" "d mod 60 \<le> 59"
    by simp_all
qed

lemma mul32_small:
  "- 100000 \<le> a \<Longrightarrow> a \<le> 100000 \<Longrightarrow> mul32 (mul32 a 24) 365 = a * 8760"
  "- 100000 \<le> a \<Longrightarrow> a \<le> 100000 \<Longrightarrow> mul32 (mul32 a 24) 30 = a * 720"
  "- 100000 \<le> a \<Longrightarrow> a \<le> 100000 \<Longrightarrow> mul32 a 24 = a * 24"
  by (simp_all add: mul32_def int32_id)

lemma duration_fields_eq:
  assumes "0 \<le> d" "d div 3600 div 24 div 365 \<le> 99"
  shows "\<exists>yy mon dd hh mm ss.
     duration_fields d = [yy, mon, dd, hh, mm, ss]
     \<and> 0 \<le> yy \<and> yy \<le> 99 \<and> 0 \<le> mon \<and> mon \<le> 12 \<and> 0 \<le> dd \<and> dd \<le> 29
     \<and> 0 \<le> hh \<and> hh \<le> 23 \<and> 0 \<le> mm \<and> mm \<le> 59 \<and> 0 \<le> ss \<and> ss \<le> 59
     \<and> ((yy * 365 * 24 + mon * 30 * 24 + dd * 24 + hh) * 60 + mm) * 60 + ss = d
     \<and> getTimeString_duration d =
         setw2 yy @ setw2 mon @ setw2 dd @ setw2 hh @ setw2 mm @ setw2 ss @ ''000R''"
proof -
  define h where "h = d div 3600"
  define yy where "yy = h div 24 div 365"
  define r1 where "r1 = h - yy * 8760"
  define mon where "mon = r1 div 24 div 30"
  define r2 where "r2 = r1 - mon * 720"
  define dd where "dd = r2 div 24"
  define hh where "hh = r2 - dd * 24"
  define mm where "mm = d div 60 mod 60"
  define ss where "ss = d mod 60"
  note R = duration_fields_range [OF assms, folded h_def, folded yy_def, folded r1_def]
  note S = remainder_fields_range [OF R(5) R(6), folded mon_def, folded r2_def]
  note T = day_fields_range [OF S(4) S(5), folded dd_def, folded hh_def]
  note M = minute_fields [of d, folded h_def, folded mm_def ss_def]
  have yy99: "yy \<le> 99" using assms(2) by (simp add: yy_def h_def)
  have c1: "cdiv d 3600 = h" using assms(1) by (simp add: cdiv_nonneg h_def)
  have c3: "d - h * 3600 - mm * 60 = ss" by (rule M(3))
  have c4: "cdiv (cdiv h 24) 365 = yy" using R(1) R(3) by (simp add: cdiv_nonneg yy_def)
  have c5: "mul32 (mul32 yy 24) 365 = yy * 8760"
    by (rule mul32_small(1)) (use R(4) yy99 in simp_all)
  have c6: "cdiv (cdiv r1 24) 30 = mon" using R(5) S(1) by (simp add: cdiv_nonneg mon_def)
  have c7: "mul32 (mul32 mon 24) 30 = mon * 720"
    by (rule mul32_small(2)) (use S(2) S(3) in simp_all)
  have c8: "cdiv r2 24 = dd" using S(4) by (simp add: cdiv_nonneg dd_def)
  have c9: "mul32 dd 24 = dd * 24"
    by (rule mul32_small(3)) (use T(1) T(2) in simp_all)
  have l1: "int32 h = h" using R(1) R(2) by (simp add: int32_id)
  have l2: "add32 h (- (yy * 8760)) = r1" using R(5) R(6) by (simp add: add32_def int32_id r1_def)
  have l3: "add32 r1 (- (mon * 720)) = r2" using S(4) S(5) by (simp add: add32_def int32_id r2_def)
  have l4: "add32 r2 (- (dd * 24)) = hh" using T(3) T(4) by (simp add: add32_def int32_id hh_def)
  have d60: "0 \<le> d div 60" using assms(1) by (simp add: pos_imp_zdiv_nonneg_iff)
  have "cdiv d 60 = d div 60" using assms(1) by (simp add: cdiv_nonneg)
  then have t5: "td_minutes d = mm"
    unfolding td_minutes_def mm_def using d60 by (simp add: cmod_nonneg)
  have t6: "td_seconds d = ss"
    unfolding td_seconds_def ss_def using assms(1) by (simp add: cmod_nonneg)
  have leg: "getTimeString_duration d =
         setw2 yy @ setw2 mon @ setw2 dd @ setw2 hh @ setw2 mm @ setw2 ss @ ''000R''"
    unfolding getTimeString_duration_def Let_def td_hours_def c1 l1 c4 c5 l2 c6 c7 l3 c8 c9 l4
      t5 t6
    by simp
  have n: "(365::int) * 24 = 8760" "(30::int) * 24 = 720" by simp_all
  have fields: "duration_fields d = [yy, mon, dd, hh, mm, ss]"
    unfolding duration_fields_def Let_def n h_def [symmetric] yy_def [symmetric]
      r1_def [symmetric] mon_def [symmetric] r2_def [symmetric] dd_def [symmetric]
      hh_def [symmetric] mm_def [symmetric] ss_def [symmetric]
    by (rule refl)
  have total: "((yy * 365 * 24 + mon * 30 * 24 + dd * 24 + hh) * 60 + mm) * 60 + ss = d"
  proof -
    have "yy * 365 * 24 + mon * 30 * 24 + dd * 24 + hh = h"
      by (simp add: hh_def r2_def r1_def)
    moreover have "h * 3600 + mm * 60 + ss = d" using c3 by simp
    ultimately show ?thesis by simp
  qed
  have "hh \<le> 23" using T(4) by simp
  with R(4) yy99 S(2) S(3) T(1) T(2) T(3) M(4-7)
  have rng: "0 \<le> yy \<and> yy \<le> 99 \<and> 0 \<le> mon \<and> mon \<le> 12 \<and> 0 \<le> dd \<and> dd \<le> 29
     \<and> 0 \<le> hh \<and> hh \<le> 23 \<and> 0 \<le> mm \<and> mm \<le> 59 \<and> 0 \<le> ss \<and> ss \<le> 59"
    by blast
  from fields total leg rng show ?thesis by blast
qed

text \<open>
  The older formatter does what is asked of both: for a non-negative duration with a
  year count of at most 99 it writes the six fields with two digits each, and the parser
  reads the duration back.
\<close>

lemma getTimeString_duration_two_digits:
  assumes "0 \<le> d" "d div 3600 div 24 div 365 \<le> 99"
  shows "getTimeString_duration d = concat (map two_digits (duration_fields d)) @ ''000R''"
    and "list_all (\<lambda>n. 0 \<le> n \<and> n \<le> 99) (duration_fields d)"
proof -
  from duration_fields_eq [OF assms] obtain yy mon dd hh mm ss where
    f: "duration_fields d = [yy, mon, dd, hh, mm, ss]"
    and r: "0 \<le> yy" "yy \<le> 99" "0 \<le> mon" "mon \<le> 12" "0 \<le> dd" "dd \<le> 29"
      "0 \<le> hh" "hh \<le> 23" "0 \<le> mm" "mm \<le> 59" "0 \<le> ss" "ss \<le> 59"
    and g: "getTimeString_duration d =
         setw2 yy @ setw2 mon @ setw2 dd @ setw2 hh @ setw2 mm @ setw2 ss @ ''000R''"
    by blast
  have r99: "mon \<le> 99" "dd \<le> 99" "hh \<le> 99" "mm \<le> 99" "ss \<le> 99"
    using r by simp_all
  show "getTimeString_duration d = concat (map two_digits (duration_fields d)) @ ''000R''"
    unfolding g f using r r99 by (simp add: setw2_two_digits)
  show "list_all (\<lambda>n. 0 \<le> n \<and> n \<le> 99) (duration_fields d)"
    unfolding f using r r99 by simp
qed

lemma getTimeString_duration_roundtrip:
  assumes "0 \<le> d" "d div 3600 div 24 div 365 \<le> 99"
  shows "wire_grammar (getTimeString_duration d) \<and> length (getTimeString_duration d) = 16
         \<and> ParseSmppTimestamp env (getTimeString_duration d) =
             Inr (clock_now env + d * ticks_per_second env, d)"
proof -
  from duration_fields_eq [OF assms] obtain yy mon dd hh mm ss where
    f: "duration_fields d = [yy, mon, dd, hh, mm, ss]"
    and r: "0 \<le> yy" "yy \<le> 99" "0 \<le> mon" "mon \<le> 12" "0 \<le> dd" "dd \<le> 29"
      "0 \<le> hh" "hh \<le> 23" "0 \<le> mm" "mm \<le> 59" "0 \<le> ss" "ss \<le> 59"
    and total: "((yy * 365 * 24 + mon * 30 * 24 + dd * 24 + hh) * 60 + mm) * 60 + ss = d"
    by blast
  have r99: "mon \<le> 99" "dd \<le> 99" "hh \<le> 99" "mm \<le> 99" "ss \<le> 99"
    using r by simp_all
  obtain a1 b1 where p1: "two_digits yy = [a1, b1]" "is_digit a1" "is_digit b1"
      "digit_val a1 * 10 + digit_val b1 = yy"
    using two_digits_props [OF r(1) r(2)] by blast
  obtain a2 b2 where p2: "two_digits mon = [a2, b2]" "is_digit a2" "is_digit b2"
      "digit_val a2 * 10 + digit_val b2 = mon"
    using two_digits_props [OF r(3) r99(1)] by blast
  obtain a3 b3 where p3: "two_digits dd = [a3, b3]" "is_digit a3" "is_digit b3"
      "digit_val a3 * 10 + digit_val b3 = dd"
    using two_digits_props [OF r(5) r99(2)] by blast
  obtain a4 b4 where p4: "two_digits hh = [a4, b4]" "is_digit a4" "is_digit b4"
      "digit_val a4 * 10 + digit_val b4 = hh"
    using two_digits_props [OF r(7) r99(3)] by blast
  obtain a5 b5 where p5: "two_digits mm = [a5, b5]" "is_digit a5" "is_digit b5"
      "digit_val a5 * 10 + digit_val b5 = mm"
    using two_digits_props [OF r(9) r99(4)] by blast
  obtain a6 b6 where p6: "two_digits ss = [a6, b6]" "is_digit a6" "is_digit b6"
      "digit_val a6 * 10 + digit_val b6 = ss"
    using two_digits_props [OF r(11) r99(5)] by blast
  let ?w = "[a1, b1, a2, b2, a3, b3, a4, b4, a5, b5, a6, b6, CHR ''0'', CHR ''0'', CHR ''0'',
             CHR ''R'']"
  have w: "getTimeString_duration d = ?w"
    unfolding getTimeString_duration_two_digits(1) [OF assms] f
    by (simp add: p1(1) p2(1) p3(1) p4(1) p5(1) p6(1))
  have z: "is_digit CHR ''0''" by (simp add: is_digit_def)
  have gr: "wire_grammar ?w"
    by (simp add: wire_grammar_def p1(2,3) p2(2,3) p3(2,3) p4(2,3) p5(2,3) p6(2,3) z)
  have fl: "field ?w 0 = yy" "field ?w 2 = mon" "field ?w 4 = dd" "field ?w 6 = hh"
    "field ?w 8 = mm" "field ?w 10 = ss"
    by (simp_all add: field_def p1(4) p2(4) p3(4) p4(4) p5(4) p6(4))
  have tag: "?w ! 15 = CHR ''R''" by simp
  have "ParseRelativeTimestamp (captures ?w) = d"
    unfolding ParseRelativeTimestamp_captures [OF gr] fl by (rule total)
  then have "ParseSmppTimestamp env ?w = Inr (clock_now env + d * ticks_per_second env, d)"
    unfolding ParseSmppTimestamp_relative [OF gr tag] by simp
  with gr show ?thesis unfolding w by simp
qed

subsection \<open>The buffer of the new formatter\<close>

lemma fmt02_length: "2 \<le> length (fmt02 n)"
proof (cases "n < 0")
  case True
  have "1 \<le> length (dec (nat (- n)))"
    using dec_nonempty [of "nat (- n)"] by (cases "dec (nat (- n))") simp_all
  with True show ?thesis by (simp add: fmt02_def)
next
  case False
  then show ?thesis by (simp add: fmt02_def)
qed

lemma sprintf_buf_overrun: "16 \<le> length text \<Longrightarrow> sprintf_buf 16 text = Inl BufferOverrun"
  by (simp add: sprintf_buf_def)

lemma ToSmppTimeString_seconds_outcome:
  "ToSmppTimeString_seconds d =
     (if 99 < int32 (cdiv (cdiv (cdiv d 3600) 24) 365)
      then Inl (SmppException ''Time duration overflows'') else Inl BufferOverrun)"
proof -
  have "16 \<le> length (fmt02 a @ fmt02 b @ fmt02 c @ fmt02 e @ fmt02 f @ fmt02 g @ ''000R'')"
    for a b c e f g
    using fmt02_length [of a] fmt02_length [of b] fmt02_length [of c] fmt02_length [of e]
      fmt02_length [of f] fmt02_length [of g]
    by simp
  then show ?thesis
    unfolding ToSmppTimeString_seconds_def Let_def by (simp only: sprintf_buf_overrun)
qed

lemma ToSmppTimeString_seconds_no_string: "ToSmppTimeString_seconds d \<noteq> Inr w"
  by (simp add: ToSmppTimeString_seconds_outcome)

lemma year_count_nonneg:
  assumes "0 \<le> d"
  shows "cdiv (cdiv (cdiv d 3600) 24) 365 = d div 3600 div 24 div 365"
proof -
  have a: "0 \<le> d div 3600" "0 \<le> d div 3600 div 24"
    using assms by (simp_all add: pos_imp_zdiv_nonneg_iff)
  have "cdiv d 3600 = d div 3600" using assms by (simp add: cdiv_nonneg)
  moreover have "cdiv (d div 3600) 24 = d div 3600 div 24" using a by (simp add: cdiv_nonneg)
  moreover have "cdiv (d div 3600 div 24) 365 = d div 3600 div 24 div 365"
    using a by (simp add: cdiv_nonneg)
  ultimately show ?thesis by simp
qed

text \<open>
  The test \<^verbatim>\<open>yy > 99\<close> does its work as long as the year count fits an \<^verbatim>\<open>int\<close>: a
  non-negative duration throws exactly when its year count exceeds 99.
\<close>

lemma ToSmppTimeString_seconds_overflow:
  assumes "0 \<le> d" "d div 3600 div 24 div 365 < 2 ^ 31"
  shows "ToSmppTimeString_seconds d = Inl (SmppException ''Time duration overflows'')
         \<longleftrightarrow> 99 < d div 3600 div 24 div 365"
proof -
  have "0 \<le> d div 3600 div 24 div 365"
    using assms(1) by (simp add: pos_imp_zdiv_nonneg_iff)
  then have "int32 (d div 3600 div 24 div 365) = d div 3600 div 24 div 365"
    using assms(2) by (simp add: int32_id)
  then show ?thesis
    by (simp add: ToSmppTimeString_seconds_outcome year_count_nonneg [OF assms(1)])
qed

text \<open>
  Claim C3. For every duration \<open>d\<close> with a derived year count of at most 99, parsing the
  formatted string recovers the duration. The code does not get as far as a string:
  \<^verbatim>\<open>sprintf\<close> writes the sixteen characters and the terminating NUL into \<^verbatim>\<open>char buf[16]\<close>,
  one byte beyond the array, for 48 hours as for every duration that does not throw. The
  older formatter, on the same 48 hours, gives \<^verbatim>\<open>000002000000000R\<close>, which parses back to
  172800 seconds.
\<close>

theorem ToSmppTimeString_seconds_roundtrip_overruns:
  "ToSmppTimeString_seconds 172800 = Inl BufferOverrun
   \<and> (\<forall>w. ToSmppTimeString_seconds d \<noteq> Inr w)
   \<and> getTimeString_duration 172800 = ''000002000000000R''
   \<and> ParseSmppTimestamp env ''000002000000000R'' =
       Inr (clock_now env + 172800 * ticks_per_second env, 172800)"
proof -
  have a: "ToSmppTimeString_seconds 172800 = Inl BufferOverrun"
    by (simp add: ToSmppTimeString_seconds_outcome cdiv_def int32_def)
  have b: "getTimeString_duration 172800 = ''000002000000000R''"
    by (simp add: getTimeString_duration_two_digits duration_fields_def two_digits_def
        digit_char_def Let_def)
  have c: "ParseSmppTimestamp env (getTimeString_duration 172800) =
       Inr (clock_now env + 172800 * ticks_per_second env, 172800)"
    using getTimeString_duration_roundtrip [of 172800 env] by simp
  from a b c show ?thesis
    by (simp add: ToSmppTimeString_seconds_no_string)
qed

text \<open>
  Claim C4. \<^verbatim>\<open>ToSmppTimeString\<close> of a duration throws if and only if the derived year
  count exceeds 99, and otherwise emits the six two-digit fields and \<^verbatim>\<open>000R\<close>; 875043 h
  34 min 29 s gives \<^verbatim>\<open>991025033429000R\<close> and 876143 h 34 min 29 s throws. The code
  throws for 876143 h 34 min 29 s, but for 875043 h 34 min 29 s it writes the sixteen
  characters (those that the older formatter returns) and the NUL into \<^verbatim>\<open>char buf[16]\<close>,
  beyond the array. And for 812676531879936000 seconds, a 64-bit count whose year count
  is 6 * 2^32, the count is narrowed to \<^verbatim>\<open>int\<close> and becomes 0: nothing is thrown, and the
  write runs beyond the array again.
\<close>

theorem ToSmppTimeString_seconds_examples:
  "ToSmppTimeString_seconds (875043 * 3600 + 34 * 60 + 29) = Inl BufferOverrun
   \<and> getTimeString_duration (875043 * 3600 + 34 * 60 + 29) = ''991025033429000R''
   \<and> ToSmppTimeString_seconds (876143 * 3600 + 34 * 60 + 29) =
       Inl (SmppException ''Time duration overflows'')
   \<and> (812676531879936000 :: int) < 2 ^ 63
   \<and> (812676531879936000 :: int) div 3600 div 24 div 365 = 25769803776
   \<and> int32 25769803776 = 0
   \<and> ToSmppTimeString_seconds 812676531879936000 = Inl BufferOverrun"
proof -
  have a: "ToSmppTimeString_seconds (875043 * 3600 + 34 * 60 + 29) = Inl BufferOverrun"
    by (simp add: ToSmppTimeString_seconds_outcome cdiv_def int32_def)
  have b: "getTimeString_duration (875043 * 3600 + 34 * 60 + 29) = ''991025033429000R''"
    by (simp add: getTimeString_duration_two_digits duration_fields_def two_digits_def
        digit_char_def Let_def)
  have c: "ToSmppTimeString_seconds (876143 * 3600 + 34 * 60 + 29) =
       Inl (SmppException ''Time duration overflows'')"
    by (simp add: ToSmppTimeString_seconds_outcome cdiv_def int32_def)
  have e: "ToSmppTimeString_seconds 812676531879936000 = Inl BufferOverrun"
    by (simp add: ToSmppTimeString_seconds_outcome cdiv_def int32_def)
  from a b c e show ?thesis by (simp add: int32_def)
qed

text \<open>
  Claim C9. For every non-negative duration with a derived year count of at most 99,
  the older \<^verbatim>\<open>getTimeString\<close> of a \<^verbatim>\<open>time_duration\<close> and the newer \<^verbatim>\<open>ToSmppTimeString\<close> of
  seconds produce the same wire string of sixteen characters. The code does not: the
  older formatter builds its string in a stream and returns it (\<^verbatim>\<open>000000010000000R\<close> for
  one hour), the newer one writes the same sixteen characters and the NUL into
  \<^verbatim>\<open>char buf[16]\<close>, beyond the array; for no duration does it return what the older one
  returns.
\<close>

theorem getTimeString_and_ToSmppTimeString_differ:
  "getTimeString_duration 3600 = ''000000010000000R''
   \<and> ToSmppTimeString_seconds 3600 = Inl BufferOverrun
   \<and> ToSmppTimeString_seconds d \<noteq> Inr (getTimeString_duration d)"
proof -
  have a: "getTimeString_duration 3600 = ''000000010000000R''"
    by (simp add: getTimeString_duration_two_digits duration_fields_def two_digits_def
        digit_char_def Let_def)
  have b: "ToSmppTimeString_seconds 3600 = Inl BufferOverrun"
    by (simp add: ToSmppTimeString_seconds_outcome cdiv_def int32_def)
  from a b show ?thesis
    by (simp add: ToSmppTimeString_seconds_no_string)
qed

end
